theory Spec2Isabelle
  imports Complex_Main
begin

section \<open>JavaScript values\<close>

text \<open>
  The generation service answers with a text that \<^verbatim>\<open>JSON.parse\<close> turns into a
  JavaScript value. The cast \<^verbatim>\<open>as GeometryData\<close> is erased at run time, so the
  normaliser may meet any such value. \<open>JNum\<close> carries the numeric value of the
  parsed number; the code below only asks whether it is zero. \<open>JObj\<close> lists the
  members in the order of the text; a later duplicate key overrides an earlier one.
  Strings are the UTF-8 bytes of the source's literals.
\<close>

datatype jsval =
    JUndefined
  | JNull
  | JBool bool
  | JNum rat
  | JStr string
  | JArr "jsval list"
  | JObj "(string \<times> jsval) list"

text \<open>Truthiness, as the operator \<^verbatim>\<open>||\<close> tests it.\<close>

fun truthy :: "jsval \<Rightarrow> bool" where
  "truthy JUndefined = False"
| "truthy JNull = False"
| "truthy (JBool b) = b"
| "truthy (JNum r) = (r \<noteq> 0)"
| "truthy (JStr s) = (s \<noteq> [])"
| "truthy (JArr xs) = True"
| "truthy (JObj kvs) = True"

definition js_or :: "jsval \<Rightarrow> jsval \<Rightarrow> jsval" where
  "js_or a b = (if truthy a then a else b)"

text \<open>
  Reading the member \<open>k\<close> of a value other than \<^verbatim>\<open>null\<close> and \<^verbatim>\<open>undefined\<close>.
  It is used for the ten member names of a geometry document only, none of which
  a string, a number, a boolean or an array has.
\<close>

fun js_get :: "jsval \<Rightarrow> string \<Rightarrow> jsval" where
  "js_get (JObj kvs) k = (case map_of (rev kvs) k of None \<Rightarrow> JUndefined | Some v \<Rightarrow> v)"
| "js_get v k = JUndefined"

definition is_array :: "jsval \<Rightarrow> bool" where
  "is_array v = (case v of JArr xs \<Rightarrow> True | _ \<Rightarrow> False)"

section \<open>The geometry document and its normaliser (services/geminiService.ts)\<close>

record GeometryData =
  points :: jsval
  edges :: jsval
  faces :: jsval
  angles :: jsval
  circles :: jsval
  steps :: jsval
  reasoning :: jsval
  type :: jsval
  message :: jsval
  mathSolution :: jsval

datatype error = MissingApiKey | ServiceError | NoResponse | SyntaxError | TypeError

text \<open>
  The object literal returned by \<^verbatim>\<open>generateGeometry\<close> (lines 177 to 188). Reading
  a member of \<^verbatim>\<open>null\<close> throws a TypeError at the first field.
\<close>

definition normalize :: "jsval \<Rightarrow> error + GeometryData" where
  "normalize parsed =
     (if parsed = JNull \<or> parsed = JUndefined then Inl TypeError
      else Inr \<lparr>
        points = js_or (js_get parsed ''points'') (JArr []),
        edges = js_or (js_get parsed ''edges'') (JArr []),
        faces = js_or (js_get parsed ''faces'') (JArr []),
        angles = js_or (js_get parsed ''angles'') (JArr []),
        circles = js_or (js_get parsed ''circles'') (JArr []),
        steps = js_or (js_get parsed ''steps'') (JArr []),
        reasoning = js_or (js_get parsed ''reasoning'') (JArr []),
        type = js_or (js_get parsed ''type'') (JStr ''2D''),
        message = js_get parsed ''message'',
        mathSolution = js_get parsed ''mathSolution'' \<rparr>)"

text \<open>
  The awaited service call either throws or yields a response whose \<^verbatim>\<open>text\<close> may be
  undefined. The prompt, the history and the image only shape the request, so the
  response is an input of the model, and so are the API key of the environment and
  \<^verbatim>\<open>JSON.parse\<close> (\<open>None\<close> when it throws a SyntaxError).
\<close>

datatype response = CallThrows | ResponseText "string option"

definition generateGeometry ::
  "string option \<Rightarrow> (string \<Rightarrow> jsval option) \<Rightarrow> response \<Rightarrow> error + GeometryData" where
  "generateGeometry API_KEY JSON_parse response =
     (if API_KEY = None \<or> API_KEY = Some [] then Inl MissingApiKey
      else case response of
        CallThrows \<Rightarrow> Inl ServiceError
      | ResponseText None \<Rightarrow> Inl NoResponse
      | ResponseText (Some txt) \<Rightarrow>
          if txt = [] then Inl NoResponse
          else (case JSON_parse txt of
                  None \<Rightarrow> Inl SyntaxError
                | Some parsed \<Rightarrow> normalize parsed))"

section \<open>Messages and projects\<close>

datatype Role = User | Model

record ChatMessage =
  id_msg :: string
  role :: Role
  text_msg :: jsval
  timestamp :: int

record Project =
  id_proj :: string
  name :: string
  subjectId :: string
  messages :: "ChatMessage list"
  geometryData :: "GeometryData option"
  currentStepIndex :: int
  lastModified :: int

text \<open>
  \<^verbatim>\<open>Partial<Project>\<close>: every member may be missing. \<open>upd_geometryData = Some None\<close>
  is the update to \<^verbatim>\<open>null\<close>.
\<close>

record Partial_Project =
  upd_id :: "string option"
  upd_name :: "string option"
  upd_subjectId :: "string option"
  upd_messages :: "ChatMessage list option"
  upd_geometryData :: "GeometryData option option"
  upd_currentStepIndex :: "int option"
  upd_lastModified :: "int option"

definition no_updates :: Partial_Project where
  "no_updates = \<lparr> upd_id = None, upd_name = None, upd_subjectId = None,
     upd_messages = None, upd_geometryData = None, upd_currentStepIndex = None,
     upd_lastModified = None \<rparr>"

text \<open>
  \<^verbatim>\<open>Date.now()\<close> is read several times in one handler. The readings are inputs:
  \<open>at_id\<close> for an id, \<open>at_ts\<close> for a message's timestamp, \<open>at_mod\<close> for the
  \<open>lastModified\<close> stamp, in the order the source takes them.
\<close>

record Stamps =
  at_id :: int
  at_ts :: int
  at_mod :: int

text \<open>\<^verbatim>\<open>Number.prototype.toString\<close> on an integer: its decimal digits.\<close>

definition digit :: "nat \<Rightarrow> char" where
  "digit d =
     (if d = 0 then CHR ''0'' else if d = 1 then CHR ''1'' else if d = 2 then CHR ''2''
      else if d = 3 then CHR ''3'' else if d = 4 then CHR ''4'' else if d = 5 then CHR ''5''
      else if d = 6 then CHR ''6'' else if d = 7 then CHR ''7'' else if d = 8 then CHR ''8''
      else CHR ''9'')"

fun digits :: "nat \<Rightarrow> string" where
  "digits n = (if n < 10 then [digit n] else digits (n div 10) @ [digit (n mod 10)])"

declare digits.simps [simp del]

definition toString :: "int \<Rightarrow> string" where
  "toString i = (if i < 0 then CHR ''-'' # digits (nat (- i)) else digits (nat i))"

definition welcome_text :: string where
  "welcome_text = ''Ch'' @ [CHR 0xC3, CHR 0xA0] @ ''o em! Th'' @ [CHR 0xE1, CHR 0xBA, CHR 0xA7]
     @ ''y l'' @ [CHR 0xC3, CHR 0xA0] @ '' tr'' @ [CHR 0xE1, CHR 0xBB, CHR 0xA3] @ '' l''
     @ [CHR 0xC3, CHR 0xBD] @ '' To'' @ [CHR 0xC3, CHR 0xA1] @ ''n h''
     @ [CHR 0xE1, CHR 0xBB, CHR 0x8D] @ ''c. Em c'' @ [CHR 0xC3, CHR 0xB3] @ '' th''
     @ [CHR 0xE1, CHR 0xBB, CHR 0x83] @ '' ch'' @ [CHR 0xE1, CHR 0xBB, CHR 0xA5] @ ''p ''
     @ [CHR 0xE1, CHR 0xBA, CHR 0xA3] @ ''nh '' @ [CHR 0xC4, CHR 0x91, CHR 0xE1, CHR 0xBB, CHR 0x81]
     @ '' b'' @ [CHR 0xC3, CHR 0xA0] @ ''i ho'' @ [CHR 0xE1, CHR 0xBA, CHR 0xB7] @ ''c nh''
     @ [CHR 0xE1, CHR 0xBA, CHR 0xAF] @ ''n tin '' @ [CHR 0xC4, CHR 0x91, CHR 0xE1, CHR 0xBB, CHR 0x83]
     @ '' th'' @ [CHR 0xE1, CHR 0xBA, CHR 0xA7] @ ''y h'' @ [CHR 0xE1, CHR 0xBB, CHR 0x97]
     @ '' tr'' @ [CHR 0xE1, CHR 0xBB, CHR 0xA3] @ '' nh'' @ [CHR 0xC3, CHR 0xA9] @ ''!''"

definition failure_text :: string where
  "failure_text = ''L'' @ [CHR 0xE1, CHR 0xBB, CHR 0x97] @ ''i r'' @ [CHR 0xE1, CHR 0xBB, CHR 0x93]
     @ ''i em '' @ [CHR 0xE1, CHR 0xBA, CHR 0xA1] @ ''.''"

definition default_name_prefix :: string where
  "default_name_prefix = ''B'' @ [CHR 0xC3, CHR 0xA0] @ ''i to'' @ [CHR 0xC3, CHR 0xA1] @ ''n ''"

text \<open>The constant of line 12; its timestamp is the clock at module load, \<open>t0\<close>.\<close>

definition DEFAULT_WELCOME_MSG :: "int \<Rightarrow> ChatMessage" where
  "DEFAULT_WELCOME_MSG t0 =
     \<lparr> id_msg = ''welcome'', role = Model, text_msg = JStr welcome_text, timestamp = t0 \<rparr>"

section \<open>The application state and its handlers (App component)\<close>

record App =
  projects :: "Project list"
  currentProjectId :: "string option"
  isLoading :: bool

definition activeProject :: "App \<Rightarrow> Project option" where
  "activeProject s = find (\<lambda>p. Some (id_proj p) = currentProjectId s) (projects s)"

text \<open>\<^verbatim>\<open>activeProject?.messages || [DEFAULT_WELCOME_MSG]\<close>; an array is always truthy.\<close>

definition active_messages :: "int \<Rightarrow> App \<Rightarrow> ChatMessage list" where
  "active_messages t0 s =
     (case activeProject s of None \<Rightarrow> [DEFAULT_WELCOME_MSG t0] | Some p \<Rightarrow> messages p)"

text \<open>\<^verbatim>\<open>{ ...p, ...updates, lastModified: Date.now() }\<close>\<close>

definition merge :: "Project \<Rightarrow> Partial_Project \<Rightarrow> int \<Rightarrow> Project" where
  "merge p updates now =
     \<lparr> id_proj = (case upd_id updates of None \<Rightarrow> id_proj p | Some v \<Rightarrow> v),
       name = (case upd_name updates of None \<Rightarrow> name p | Some v \<Rightarrow> v),
       subjectId = (case upd_subjectId updates of None \<Rightarrow> subjectId p | Some v \<Rightarrow> v),
       messages = (case upd_messages updates of None \<Rightarrow> messages p | Some v \<Rightarrow> v),
       geometryData = (case upd_geometryData updates of None \<Rightarrow> geometryData p | Some v \<Rightarrow> v),
       currentStepIndex =
         (case upd_currentStepIndex updates of None \<Rightarrow> currentStepIndex p | Some v \<Rightarrow> v),
       lastModified = now \<rparr>"

text \<open>
  \<^verbatim>\<open>updateActiveProject\<close> (lines 67 to 71). The id compared with is the
  \<^verbatim>\<open>currentProjectId\<close> of the render whose closure calls it, the list is the
  latest one (\<^verbatim>\<open>prev\<close>). One clock reading stamps every matching project.
\<close>

definition updateActiveProject ::
  "string option \<Rightarrow> Partial_Project \<Rightarrow> int \<Rightarrow> Project list \<Rightarrow> Project list" where
  "updateActiveProject cur updates now prev =
     map (\<lambda>p. if Some (id_proj p) = cur then merge p updates now else p) prev"

text \<open>\<^verbatim>\<open>createProject\<close> (lines 116 to 129); \<^verbatim>\<open>nameInput || ...\<close> also replaces the
  empty name.\<close>

definition createProject :: "string option \<Rightarrow> int \<Rightarrow> Stamps \<Rightarrow> App \<Rightarrow> App" where
  "createProject nameInput t0 c s =
     (let nm = (case nameInput of
                  None \<Rightarrow> default_name_prefix @ toString (int (length (projects s)) + 1)
                | Some n \<Rightarrow> if n \<noteq> [] then n
                            else default_name_prefix @ toString (int (length (projects s)) + 1));
          newProj = \<lparr> id_proj = toString (at_id c), name = nm, subjectId = ''math'',
                      messages = [(DEFAULT_WELCOME_MSG t0)\<lparr> timestamp := at_ts c \<rparr>],
                      geometryData = None, currentStepIndex = 0, lastModified = at_mod c \<rparr>
      in s\<lparr> projects := newProj # projects s, currentProjectId := Some (id_proj newProj) \<rparr>)"

text \<open>
  \<^verbatim>\<open>deleteProject\<close> (lines 131 to 138); \<open>confirmed\<close> is the answer of
  \<^verbatim>\<open>window.confirm\<close>.
\<close>

definition deleteProject :: "string \<Rightarrow> bool \<Rightarrow> App \<Rightarrow> App" where
  "deleteProject i confirmed s =
     (if confirmed then
        (let newProjects = filter (\<lambda>p. id_proj p \<noteq> i) (projects s)
         in if currentProjectId s = Some i \<and> newProjects \<noteq> []
            then s\<lparr> projects := newProjects, currentProjectId := Some (id_proj (hd newProjects)) \<rparr>
            else s\<lparr> projects := newProjects \<rparr>)
      else s)"

text \<open>The click on a project of the side bar (line 178).\<close>

definition selectProject :: "string \<Rightarrow> App \<Rightarrow> App" where
  "selectProject i s = s\<lparr> currentProjectId := Some i \<rparr>"

text \<open>The \<^verbatim>\<open>setCurrentStepIndex\<close> handed to the chat panel (line 232).\<close>

definition setCurrentStepIndex :: "int \<Rightarrow> int \<Rightarrow> App \<Rightarrow> App" where
  "setCurrentStepIndex idx now s =
     s\<lparr> projects := updateActiveProject (currentProjectId s)
          (no_updates\<lparr> upd_currentStepIndex := Some idx \<rparr>) now (projects s) \<rparr>"

text \<open>
  The choice of the start-up effect (line 52): a stable sort by descending
  \<open>lastModified\<close>, then the first element.
\<close>

definition mostRecent :: "Project list \<Rightarrow> Project option" where
  "mostRecent ps =
     (case sort_key (\<lambda>p. - lastModified p) ps of [] \<Rightarrow> None | p # rest \<Rightarrow> Some p)"

text \<open>
  \<^verbatim>\<open>handleSendMessage\<close> (lines 140 to 156) runs in two parts around the awaited
  service call. The first part captures \<^verbatim>\<open>currentProjectId\<close> and the messages of
  its render; the second part, run when the call settles, uses what was captured
  and the store as it is by then.
\<close>

record Pending =
  target :: "string option"
  updatedMessages :: "ChatMessage list"

definition userMsg :: "string \<Rightarrow> Stamps \<Rightarrow> ChatMessage" where
  "userMsg txt c =
     \<lparr> id_msg = toString (at_id c), role = User, text_msg = JStr txt, timestamp = at_ts c \<rparr>"

definition aiMsg :: "GeometryData \<Rightarrow> Stamps \<Rightarrow> ChatMessage" where
  "aiMsg data c =
     \<lparr> id_msg = toString (at_id c + 1), role = Model,
       text_msg = js_or (message data) (JStr ''Xong!''), timestamp = at_ts c \<rparr>"

definition failMsg :: "Stamps \<Rightarrow> ChatMessage" where
  "failMsg c =
     \<lparr> id_msg = toString (at_id c), role = Model, text_msg = JStr failure_text,
       timestamp = at_ts c \<rparr>"

definition handleSendMessage_begin ::
  "string \<Rightarrow> int \<Rightarrow> Stamps \<Rightarrow> App \<Rightarrow> Pending option \<times> App" where
  "handleSendMessage_begin txt t0 c s =
     (if currentProjectId s = None \<or> currentProjectId s = Some [] then (None, s)
      else
        (let updated = active_messages t0 s @ [userMsg txt c]
         in (Some \<lparr> target = currentProjectId s, updatedMessages = updated \<rparr>,
             s\<lparr> projects := updateActiveProject (currentProjectId s)
                   (no_updates\<lparr> upd_messages := Some updated \<rparr>) (at_mod c) (projects s),
                isLoading := True \<rparr>)))"

definition handleSendMessage_settle ::
  "Pending \<Rightarrow> error + GeometryData \<Rightarrow> Stamps \<Rightarrow> App \<Rightarrow> App" where
  "handleSendMessage_settle pend result c s =
     (case result of
        Inr data \<Rightarrow>
          s\<lparr> projects := updateActiveProject (target pend)
                (no_updates\<lparr> upd_messages := Some (updatedMessages pend @ [aiMsg data c]),
                             upd_geometryData := Some (Some data),
                             upd_currentStepIndex := Some 0 \<rparr>) (at_mod c) (projects s),
             isLoading := False \<rparr>
      | Inl err \<Rightarrow>
          s\<lparr> projects := updateActiveProject (target pend)
                (no_updates\<lparr> upd_messages := Some (updatedMessages pend @ [failMsg c]) \<rparr>)
                (at_mod c) (projects s),
             isLoading := False \<rparr>)"

text \<open>One whole call with nothing happening while the service is awaited.\<close>

definition handleSendMessage ::
  "string \<Rightarrow> int \<Rightarrow> Stamps \<Rightarrow> error + GeometryData \<Rightarrow> Stamps \<Rightarrow> App \<Rightarrow> App" where
  "handleSendMessage txt t0 c1 result c2 s =
     (case handleSendMessage_begin txt t0 c1 s of
        (None, s') \<Rightarrow> s'
      | (Some pend, s') \<Rightarrow> handleSendMessage_settle pend result c2 s')"

section \<open>The specification's words, for comparison\<close>

text \<open>
  The specification describes \<open>goTo(n)\<close> as clamping \<open>n\<close> into
  \<open>[0, steps.length - 1]\<close>. This definition follows those words; the source's own
  handler is \<open>setCurrentStepIndex\<close> above.
\<close>

definition spec_goTo :: "int \<Rightarrow> nat \<Rightarrow> int" where
  "spec_goTo n len = max 0 (min n (int len - 1))"

text \<open>The number of steps of a project's scene (none without a scene).\<close>

definition steps_length :: "Project \<Rightarrow> nat" where
  "steps_length p =
     (case geometryData p of
        None \<Rightarrow> 0
      | Some g \<Rightarrow> (case steps g of JArr xs \<Rightarrow> length xs | _ \<Rightarrow> 0))"

text \<open>The seven container members of a document, and their values in a scene.\<close>

definition container_keys :: "string list" where
  "container_keys =
     [''points'', ''edges'', ''faces'', ''angles'', ''circles'', ''steps'', ''reasoning'']"

definition containers :: "GeometryData \<Rightarrow> jsval list" where
  "containers g = [points g, edges g, faces g, angles g, circles g, steps g, reasoning g]"

section \<open>Concrete runs\<close>

text \<open>
  States reached from the empty store by the handlers above; the concrete theorems
  below evaluate the model on them.
\<close>

definition initial_App :: App where
  "initial_App = \<lparr> projects = [], currentProjectId = None, isLoading = False \<rparr>"

definition stamps :: "int \<Rightarrow> Stamps" where
  "stamps t = \<lparr> at_id = t, at_ts = t, at_mod = t \<rparr>"

definition demo_proj :: "string \<Rightarrow> int \<Rightarrow> Project" where
  "demo_proj i t = \<lparr> id_proj = i, name = ''P'', subjectId = ''math'',
     messages = [DEFAULT_WELCOME_MSG 1], geometryData = None, currentStepIndex = 0,
     lastModified = t \<rparr>"

definition single_App :: App where
  "single_App = createProject None 0 (stamps 1) initial_App"

definition two_App :: App where
  "two_App = createProject None 0 (stamps 2) single_App"

text \<open>
  Three projects created at times 1, 2 and 3; the second is then selected and
  touched at time 10, and the first is selected.
\<close>

definition recency_App :: App where
  "recency_App =
     selectProject ''1'' (setCurrentStepIndex 0 10 (selectProject ''2''
       (createProject None 0 (stamps 3) two_App)))"

definition three_steps_doc :: jsval where
  "three_steps_doc = JObj [(''steps'',
     JArr [JObj [(''stepNumber'', JNum 1)], JObj [(''stepNumber'', JNum 2)],
           JObj [(''stepNumber'', JNum 3)]])]"

text \<open>One project whose scene, generated successfully, has three steps.\<close>

definition three_step_App :: App where
  "three_step_App =
     handleSendMessage ''draw'' 0 (stamps 2) (normalize three_steps_doc) (stamps 3) single_App"

text \<open>
  A call issued while project 1 of \<open>two_App\<close> is active, and the store after the
  user has then switched to project 2.
\<close>

definition switch_pend :: Pending where
  "switch_pend = \<lparr> target = Some ''1'',
     updatedMessages = [(DEFAULT_WELCOME_MSG 0)\<lparr> timestamp := 1 \<rparr>, userMsg ''q'' (stamps 5)] \<rparr>"

definition switch_App :: App where
  "switch_App = selectProject ''2'' (snd (handleSendMessage_begin ''q'' 0 (stamps 5)
     (selectProject ''1'' two_App)))"

definition partial_doc :: "(string \<times> jsval) list" where
  "partial_doc = [(''points'', JArr [JObj [(''id'', JStr ''A'')]]), (''type'', JStr ''3D''),
     (''message'', JStr ''hello'')]"

definition parse_demo :: "string \<Rightarrow> jsval option" where
  "parse_demo txt = (if txt = ''{}'' then Some (JObj []) else None)"

lemmas eval_defs = initial_App_def stamps_def createProject_def handleSendMessage_def
  handleSendMessage_begin_def handleSendMessage_settle_def updateActiveProject_def merge_def
  no_updates_def activeProject_def active_messages_def toString_def digits.simps digit_def
  normalize_def js_or_def Let_def setCurrentStepIndex_def deleteProject_def selectProject_def

lemmas demo_defs = single_App_def two_App_def recency_App_def switch_App_def switch_pend_def
  three_step_App_def three_steps_doc_def partial_doc_def parse_demo_def userMsg_def aiMsg_def
  failMsg_def DEFAULT_WELCOME_MSG_def demo_proj_def

section \<open>Facts about the store update\<close>

lemma length_updateActiveProject [simp]:
  "length (updateActiveProject cur updates now prev) = length prev"
  by (simp add: updateActiveProject_def)

lemma nth_updateActiveProject:
  "i < length prev \<Longrightarrow>
   updateActiveProject cur updates now prev ! i =
     (if Some (id_proj (prev ! i)) = cur then merge (prev ! i) updates now else prev ! i)"
  by (simp add: updateActiveProject_def)

lemma id_proj_merge: "upd_id updates = None \<Longrightarrow> id_proj (merge p updates now) = id_proj p"
  by (simp add: merge_def)

lemma find_updateActiveProject:
  "upd_id updates = None \<Longrightarrow>
   find (\<lambda>p. Some (id_proj p) = cur) (updateActiveProject cur updates now prev) =
     map_option (\<lambda>p. merge p updates now) (find (\<lambda>p. Some (id_proj p) = cur) prev)"
  by (induction prev) (auto simp: updateActiveProject_def id_proj_merge)

lemma find_updateActiveProject_other:
  "upd_id updates = None \<Longrightarrow> cur' \<noteq> cur \<Longrightarrow>
   find (\<lambda>p. Some (id_proj p) = cur') (updateActiveProject cur updates now prev) =
     find (\<lambda>p. Some (id_proj p) = cur') prev"
  by (induction prev) (auto simp: updateActiveProject_def id_proj_merge)

lemma activeProject_update:
  "upd_id updates = None \<Longrightarrow>
   activeProject (s\<lparr> projects := updateActiveProject (currentProjectId s) updates now (projects s) \<rparr>)
     = map_option (\<lambda>p. merge p updates now) (activeProject s)"
  by (simp add: activeProject_def find_updateActiveProject)

lemma settle_currentProjectId [simp]:
  "currentProjectId (handleSendMessage_settle pend result c s) = currentProjectId s"
  by (simp add: handleSendMessage_settle_def split: sum.split)

lemma settle_length [simp]:
  "length (projects (handleSendMessage_settle pend result c s)) = length (projects s)"
  by (simp add: handleSendMessage_settle_def split: sum.split)

lemma settle_nth:
  "i < length (projects s) \<Longrightarrow>
   projects (handleSendMessage_settle pend result c s) ! i =
     (if Some (id_proj (projects s ! i)) = target pend
      then (case result of
              Inr data \<Rightarrow> (projects s ! i)\<lparr> messages := updatedMessages pend @ [aiMsg data c],
                 geometryData := Some data, currentStepIndex := 0, lastModified := at_mod c \<rparr>
            | Inl err \<Rightarrow> (projects s ! i)\<lparr> messages := updatedMessages pend @ [failMsg c],
                 lastModified := at_mod c \<rparr>)
      else projects s ! i)"
  by (simp add: handleSendMessage_settle_def nth_updateActiveProject merge_def no_updates_def
      split: sum.split)

lemma begin_Some:
  "handleSendMessage_begin txt t0 c s0 = (Some pend, s1) \<Longrightarrow>
   target pend = currentProjectId s0 \<and> currentProjectId s0 \<noteq> None \<and>
   currentProjectId s0 \<noteq> Some [] \<and>
   updatedMessages pend = active_messages t0 s0 @ [userMsg txt c] \<and>
   s1 = s0\<lparr> projects := updateActiveProject (currentProjectId s0)
            (no_updates\<lparr> upd_messages := Some (updatedMessages pend) \<rparr>) (at_mod c) (projects s0),
          isLoading := True \<rparr>"
  by (auto simp: handleSendMessage_begin_def Let_def split: if_splits)

lemma activeProject_settle:
  "target pend = currentProjectId s \<Longrightarrow>
   activeProject (handleSendMessage_settle pend result c s) =
     map_option (\<lambda>p. case result of
              Inr data \<Rightarrow> p\<lparr> messages := updatedMessages pend @ [aiMsg data c],
                 geometryData := Some data, currentStepIndex := 0, lastModified := at_mod c \<rparr>
            | Inl err \<Rightarrow> p\<lparr> messages := updatedMessages pend @ [failMsg c],
                 lastModified := at_mod c \<rparr>) (activeProject s)"
  by (cases "activeProject s")
     (auto simp: handleSendMessage_settle_def activeProject_def find_updateActiveProject
        no_updates_def merge_def split: sum.split)

lemma activeProject_handleSendMessage:
  assumes "activeProject s = Some p" and "id_proj p \<noteq> []"
  shows "activeProject (handleSendMessage txt t0 c1 result c2 s) =
     Some (case result of
        Inr data \<Rightarrow> p\<lparr> messages := messages p @ [userMsg txt c1, aiMsg data c2],
                 geometryData := Some data, currentStepIndex := 0, lastModified := at_mod c2 \<rparr>
      | Inl err \<Rightarrow> p\<lparr> messages := messages p @ [userMsg txt c1, failMsg c2],
                 lastModified := at_mod c2 \<rparr>)"
proof -
  from assms(1) have cur: "currentProjectId s = Some (id_proj p)"
    by (auto simp: activeProject_def find_Some_iff)
  define upd where "upd = no_updates\<lparr> upd_messages := Some (messages p @ [userMsg txt c1]) \<rparr>"
  define s1 where "s1 = s\<lparr> projects := updateActiveProject (currentProjectId s) upd (at_mod c1) (projects s),
          isLoading := True \<rparr>"
  define pend where "pend = \<lparr> target = currentProjectId s, updatedMessages = messages p @ [userMsg txt c1] \<rparr>"
  have b: "handleSendMessage_begin txt t0 c1 s = (Some pend, s1)"
    using assms cur
    by (simp add: handleSendMessage_begin_def active_messages_def Let_def pend_def s1_def upd_def)
  have a1: "activeProject s1 = Some (merge p upd (at_mod c1))"
    using assms(1) by (simp add: s1_def activeProject_def find_updateActiveProject upd_def no_updates_def)
  have tp: "target pend = currentProjectId s1"
    by (simp add: pend_def s1_def)
  have "handleSendMessage txt t0 c1 result c2 s = handleSendMessage_settle pend result c2 s1"
    by (simp add: handleSendMessage_def b)
  then show ?thesis
    using activeProject_settle [OF tp, of result c2] a1
    by (cases result) (auto simp: pend_def merge_def upd_def no_updates_def)
qed

lemma js_or_array: "a = JUndefined \<or> is_array a \<Longrightarrow>
  js_or a (JArr []) = (if a = JUndefined then JArr [] else a) \<and> is_array (js_or a (JArr []))"
  by (cases a) (auto simp: js_or_def is_array_def)

text \<open>
  The reply falls back to its fixed text for every falsy message of the scene
  (\<^verbatim>\<open>null\<close>, \<^verbatim>\<open>false\<close> and 0 included), and is the message otherwise.
\<close>

lemma aiMsg_text:
  "text_msg (aiMsg data c) = (if truthy (message data) then message data else JStr ''Xong!'')"
  by (simp add: aiMsg_def js_or_def)

lemma filter_id_unique:
  "distinct (map f xs) \<Longrightarrow> x \<in> set xs \<Longrightarrow> filter (\<lambda>y. f y = f x) xs = [x]"
proof (induction xs)
  case Nil
  then show ?case by simp
next
  case (Cons a xs)
  show ?case
  proof (cases "a = x")
    case True
    with Cons.prems have "\<forall>y \<in> set xs. f y \<noteq> f x" by (auto simp: image_iff)
    then have "filter (\<lambda>y. f y = f x) xs = []" by (simp add: filter_empty_conv)
    with True show ?thesis by simp
  next
    case False
    with Cons.prems have "x \<in> set xs" and "f a \<noteq> f x" by (auto simp: image_iff)
    with Cons show ?thesis by simp
  qed
qed

section \<open>Deleting and creating projects\<close>

text \<open>
  Claim C1, as the code has it. In a store of more than one project with pairwise
  distinct ids, deleting the active project (the dialog confirmed) leaves the other
  projects in their order and makes the first of them, in the order of the store,
  the active one; exactly one project of the store then carries the active id. The
  choice follows the position in the store, not \<open>lastModified\<close>.
\<close>

theorem delete_active_reassigns_to_first:
  assumes "distinct (map id_proj (projects s))"
    and "currentProjectId s = Some i"
    and "i \<in> set (map id_proj (projects s))"
    and "1 < length (projects s)"
  shows "\<exists>p rest. projects (deleteProject i True s) = p # rest \<and>
     p # rest = filter (\<lambda>q. id_proj q \<noteq> i) (projects s) \<and>
     currentProjectId (deleteProject i True s) = Some (id_proj p) \<and>
     activeProject (deleteProject i True s) = Some p \<and>
     filter (\<lambda>q. Some (id_proj q) = currentProjectId (deleteProject i True s))
       (projects (deleteProject i True s)) = [p]"
proof -
  let ?new = "filter (\<lambda>q. id_proj q \<noteq> i) (projects s)"
  have "?new \<noteq> []"
  proof
    assume "?new = []"
    then have "\<forall>q \<in> set (projects s). id_proj q = i" by (simp add: filter_empty_conv)
    then have "set (map id_proj (projects s)) \<subseteq> {i}" by auto
    then have "card (set (map id_proj (projects s))) \<le> 1"
      by (metis card.empty card.insert card_mono empty_iff finite.emptyI finite.insertI le_refl One_nat_def)
    with assms(1) have "length (projects s) \<le> 1"
      by (metis distinct_card length_map)
    with assms(4) show False by simp
  qed
  then obtain p rest where pr: "?new = p # rest" by (cases ?new) auto
  have d: "distinct (map id_proj ?new)" using assms(1) by (simp add: distinct_map_filter)
  have s': "deleteProject i True s = s\<lparr> projects := p # rest, currentProjectId := Some (id_proj p) \<rparr>"
    using assms(2) pr by (simp add: deleteProject_def Let_def)
  have "filter (\<lambda>q. id_proj q = id_proj p) (p # rest) = [p]"
    using filter_id_unique [of id_proj "p # rest" p] d pr by simp
  then show ?thesis
    using s' pr by (auto simp: activeProject_def)
qed

text \<open>
  Claim C1 at a concrete store: the theorem above applied to \<open>recency_App\<close>.
\<close>

theorem delete_active_reassigns_to_first_witness:
  "distinct (map id_proj (projects recency_App)) \<and>
   currentProjectId recency_App = Some ''1'' \<and>
   ''1'' \<in> set (map id_proj (projects recency_App)) \<and>
   1 < length (projects recency_App) \<and>
   map id_proj (projects (deleteProject ''1'' True recency_App)) = [''3'', ''2''] \<and>
   currentProjectId (deleteProject ''1'' True recency_App) = Some ''3'' \<and>
   map id_proj (filter (\<lambda>q. Some (id_proj q) = currentProjectId (deleteProject ''1'' True recency_App))
       (projects (deleteProject ''1'' True recency_App))) = [''3'']"
proof -
  have h1: "distinct (map id_proj (projects recency_App))"
    and h2: "currentProjectId recency_App = Some ''1''"
    and h3: "''1'' \<in> set (map id_proj (projects recency_App))"
    and h4: "1 < length (projects recency_App)"
    by (simp_all add: demo_defs eval_defs)
  from delete_active_reassigns_to_first [OF h1 h2 h3 h4] h1 h2 h3 h4 show ?thesis
    by (simp add: demo_defs eval_defs)
qed

text \<open>
  Claim C1 as stated fails. In \<open>recency_App\<close> the projects 3, 2, 1 have
  \<open>lastModified\<close> 3, 10, 1 and project 1 is active. Deleting it makes project 3
  active, while the remaining project with the greatest \<open>lastModified\<close>, the one
  the start-up effect would choose, is project 2.
\<close>

theorem delete_most_recent_counterexample:
  "currentProjectId recency_App = Some ''1'' \<and>
   map id_proj (projects recency_App) = [''3'', ''2'', ''1''] \<and>
   map id_proj (projects (deleteProject ''1'' True recency_App)) = [''3'', ''2''] \<and>
   map lastModified (projects (deleteProject ''1'' True recency_App)) = [3, 10] \<and>
   map_option id_proj (mostRecent (projects (deleteProject ''1'' True recency_App))) = Some ''2'' \<and>
   currentProjectId (deleteProject ''1'' True recency_App) = Some ''3''"
  by (simp add: demo_defs mostRecent_def eval_defs)

text \<open>
  Claim C2 evaluated on the store of one project. After the deletion the store is
  empty, yet \<open>currentProjectId\<close> still holds the id of the deleted project: the
  source resets it only when a project remains. No project is active then, and a
  message sent in that state passes the guard of \<open>handleSendMessage\<close>. A
  following \<open>createProject\<close> yields exactly one project, which becomes active.
\<close>

theorem delete_only_project_dangling:
  "map id_proj (projects single_App) = [''1''] \<and>
   currentProjectId single_App = Some ''1'' \<and>
   projects (deleteProject ''1'' True single_App) = [] \<and>
   currentProjectId (deleteProject ''1'' True single_App) = Some ''1'' \<and>
   activeProject (deleteProject ''1'' True single_App) = None \<and>
   map_option target
     (fst (handleSendMessage_begin ''hi'' 0 (stamps 2) (deleteProject ''1'' True single_App)))
     = Some (Some ''1'') \<and>
   map id_proj (projects (createProject None 0 (stamps 2) (deleteProject ''1'' True single_App)))
     = [''2''] \<and>
   currentProjectId (createProject None 0 (stamps 2) (deleteProject ''1'' True single_App))
     = Some ''2''"
  by (simp add: single_App_def eval_defs)

text \<open>
  Claim C8, as the code has it. \<open>createProject\<close> puts the new project in front
  of the projects of the store, which follow in their order. Its only message is
  the welcome message (with a fresh timestamp), it has no scene, its
  \<open>currentStepIndex\<close> is 0, and it becomes the active project.
\<close>

theorem create_prepends:
  "\<exists>newProj. projects (createProject nameInput t0 c s) = newProj # projects s \<and>
     messages newProj = [(DEFAULT_WELCOME_MSG t0)\<lparr> timestamp := at_ts c \<rparr>] \<and>
     map id_msg (messages newProj) = [''welcome''] \<and>
     map role (messages newProj) = [Model] \<and>
     map text_msg (messages newProj) = [JStr welcome_text] \<and>
     geometryData newProj = None \<and>
     currentStepIndex newProj = 0 \<and>
     currentProjectId (createProject nameInput t0 c s) = Some (id_proj newProj) \<and>
     activeProject (createProject nameInput t0 c s) = Some newProj"
  by (simp add: createProject_def Let_def activeProject_def DEFAULT_WELCOME_MSG_def)

text \<open>
  Claim C8 as stated fails: the new project is not appended. Creating a project
  in the store of project 1 gives the order 2, 1.
\<close>

theorem create_appends_counterexample:
  "map id_proj (projects single_App) = [''1''] \<and>
   map id_proj (projects (createProject None 0 (stamps 2) single_App)) = [''2'', ''1''] \<and>
   butlast (projects (createProject None 0 (stamps 2) single_App)) \<noteq> projects single_App"
  by (simp add: single_App_def eval_defs)

section \<open>The update of a project\<close>

text \<open>
  Claim C9. An update changes the projects whose id is the given one and no other
  project. In such a project every member named in the update takes the given
  value, every member not named keeps its value, and \<open>lastModified\<close> is the
  clock reading.
\<close>

theorem update_merges_and_frames:
  assumes "i < length prev"
  shows "length (updateActiveProject cur updates now prev) = length prev \<and>
    (Some (id_proj (prev ! i)) \<noteq> cur \<longrightarrow>
       updateActiveProject cur updates now prev ! i = prev ! i) \<and>
    (Some (id_proj (prev ! i)) = cur \<longrightarrow>
       (let p = prev ! i; q = updateActiveProject cur updates now prev ! i in
          lastModified q = now \<and>
          id_proj q = (case upd_id updates of None \<Rightarrow> id_proj p | Some v \<Rightarrow> v) \<and>
          name q = (case upd_name updates of None \<Rightarrow> name p | Some v \<Rightarrow> v) \<and>
          subjectId q = (case upd_subjectId updates of None \<Rightarrow> subjectId p | Some v \<Rightarrow> v) \<and>
          messages q = (case upd_messages updates of None \<Rightarrow> messages p | Some v \<Rightarrow> v) \<and>
          geometryData q = (case upd_geometryData updates of None \<Rightarrow> geometryData p | Some v \<Rightarrow> v) \<and>
          currentStepIndex q =
            (case upd_currentStepIndex updates of None \<Rightarrow> currentStepIndex p | Some v \<Rightarrow> v)))"
  using assms by (simp add: nth_updateActiveProject merge_def Let_def)

text \<open>
  Claim C9 at a concrete store of two projects.
\<close>

theorem update_merges_and_frames_witness:
  "(0::nat) < length [demo_proj ''1'' 1, demo_proj ''2'' 2] \<and>
   updateActiveProject (Some ''1'') (no_updates\<lparr> upd_currentStepIndex := Some 4 \<rparr>) 9
      [demo_proj ''1'' 1, demo_proj ''2'' 2]
     = [(demo_proj ''1'' 9)\<lparr> currentStepIndex := 4 \<rparr>, demo_proj ''2'' 2]"
  using update_merges_and_frames [of 0 "[demo_proj ''1'' 1, demo_proj ''2'' 2]" "Some ''1''"
      "no_updates\<lparr> upd_currentStepIndex := Some 4 \<rparr>" 9]
  by (simp add: updateActiveProject_def merge_def no_updates_def demo_proj_def)

section \<open>The playback cursor\<close>

text \<open>
  Claim C5, as the code has it. For every integer \<open>n\<close>,
  \<open>setCurrentStepIndex n\<close> stores \<open>n\<close> itself as the cursor of the active
  project and leaves its scene alone. Nothing is clamped: with at least one step,
  the stored value is the clamped one exactly when \<open>n\<close> is already in range.
\<close>

theorem goTo_stores_index:
  assumes "activeProject s = Some p"
  shows "map_option currentStepIndex (activeProject (setCurrentStepIndex n now s)) = Some n \<and>
         map_option steps_length (activeProject (setCurrentStepIndex n now s)) = Some (steps_length p) \<and>
         (0 < steps_length p \<longrightarrow>
            (n = spec_goTo n (steps_length p) \<longleftrightarrow> 0 \<le> n \<and> n < int (steps_length p)))"
proof -
  have "activeProject (setCurrentStepIndex n now s)
          = Some (merge p (no_updates\<lparr> upd_currentStepIndex := Some n \<rparr>) now)"
    using assms by (simp add: setCurrentStepIndex_def activeProject_update no_updates_def)
  moreover have "steps_length (merge p (no_updates\<lparr> upd_currentStepIndex := Some n \<rparr>) now)
          = steps_length p"
    by (simp add: steps_length_def merge_def no_updates_def)
  moreover have "currentStepIndex (merge p (no_updates\<lparr> upd_currentStepIndex := Some n \<rparr>) now) = n"
    by (simp add: merge_def no_updates_def)
  moreover have "0 < steps_length p \<longrightarrow>
            (n = spec_goTo n (steps_length p) \<longleftrightarrow> 0 \<le> n \<and> n < int (steps_length p))"
    by (auto simp: spec_goTo_def)
  ultimately show ?thesis by simp
qed

text \<open>
  Claim C5 at a concrete store: the theorem above applied to \<open>three_step_App\<close>.
\<close>

theorem goTo_stores_index_witness:
  "map_option id_proj (activeProject three_step_App) = Some ''1'' \<and>
   map_option steps_length (activeProject three_step_App) = Some 3 \<and>
   map_option currentStepIndex (activeProject (setCurrentStepIndex 99 4 three_step_App)) = Some 99"
proof -
  obtain p where h: "activeProject three_step_App = Some p"
    by (simp add: demo_defs eval_defs)
  from goTo_stores_index [OF h, of 99 4] show ?thesis
    by (simp add: demo_defs eval_defs steps_length_def)
qed

text \<open>
  Claim C5 as stated fails. With three steps, \<open>goTo(99)\<close> leaves the cursor at
  99 and \<open>goTo(-5)\<close> at -5, where clamping would give 2 and 0.
\<close>

theorem goTo_counterexample:
  "map steps_length (projects three_step_App) = [3] \<and>
   map currentStepIndex (projects (setCurrentStepIndex 99 4 three_step_App)) = [99] \<and>
   spec_goTo 99 3 = 2 \<and>
   map currentStepIndex (projects (setCurrentStepIndex (- 5) 4 three_step_App)) = [- 5] \<and>
   spec_goTo (- 5) 3 = 0"
  by (simp add: demo_defs steps_length_def spec_goTo_def eval_defs)

section \<open>The normaliser\<close>

text \<open>
  Claim C3, as the code has it. For every document object whose container members
  are each absent or an array, the normaliser returns a scene whose seven container
  members are arrays: the member of the document, or the empty array when it is
  absent. The \<open>type\<close> is 2D when the document has none; a non-empty string is
  passed on as it is, recognised or not, so the result is 2D or 3D whenever the
  document's value is absent, 2D or 3D.
\<close>

theorem normalize_total_containers:
  assumes "\<forall>k \<in> set container_keys. js_get (JObj kvs) k = JUndefined \<or> is_array (js_get (JObj kvs) k)"
  shows "\<exists>g. normalize (JObj kvs) = Inr g \<and>
     list_all is_array (containers g) \<and>
     containers g = map (\<lambda>k. if js_get (JObj kvs) k = JUndefined then JArr []
                              else js_get (JObj kvs) k) container_keys \<and>
     (js_get (JObj kvs) ''type'' = JUndefined \<longrightarrow> type g = JStr ''2D'') \<and>
     (\<forall>t. t \<noteq> [] \<longrightarrow> js_get (JObj kvs) ''type'' = JStr t \<longrightarrow> type g = JStr t) \<and>
     (js_get (JObj kvs) ''type'' \<in> {JUndefined, JStr ''2D'', JStr ''3D''} \<longrightarrow>
        type g \<in> {JStr ''2D'', JStr ''3D''})"
proof -
  define d where "d = JObj kvs"
  have dn: "d \<noteq> JNull" "d \<noteq> JUndefined" by (simp_all add: d_def)
  let ?fill = "\<lambda>k. js_or (js_get d k) (JArr [])"
  let ?g = "\<lparr> points = ?fill ''points'', edges = ?fill ''edges'', faces = ?fill ''faces'',
     angles = ?fill ''angles'', circles = ?fill ''circles'', steps = ?fill ''steps'',
     reasoning = ?fill ''reasoning'', type = js_or (js_get d ''type'') (JStr ''2D''),
     message = js_get d ''message'', mathSolution = js_get d ''mathSolution'' \<rparr>"
  have n: "normalize d = Inr ?g"
    using dn by (simp add: normalize_def)
  have c1: "\<forall>k \<in> set container_keys.
      ?fill k = (if js_get d k = JUndefined then JArr [] else js_get d k)"
    using assms js_or_array unfolding d_def by blast
  have c2: "\<forall>k \<in> set container_keys. is_array (?fill k)"
    using assms js_or_array unfolding d_def by blast
  have m: "containers ?g = map ?fill container_keys"
    by (simp add: containers_def container_keys_def)
  have a: "list_all is_array (containers ?g)"
    unfolding m using c2 by (simp add: list_all_iff)
  have e: "containers ?g =
      map (\<lambda>k. if js_get d k = JUndefined then JArr [] else js_get d k) container_keys"
    unfolding m using c1 by (intro map_cong) auto
  have t1: "js_get d ''type'' = JUndefined \<longrightarrow> type ?g = JStr ''2D''"
    by (simp add: js_or_def)
  have t2: "\<forall>t. t \<noteq> [] \<longrightarrow> js_get d ''type'' = JStr t \<longrightarrow> type ?g = JStr t"
    by (simp add: js_or_def)
  have t3: "js_get d ''type'' \<in> {JUndefined, JStr ''2D'', JStr ''3D''} \<longrightarrow>
        type ?g \<in> {JStr ''2D'', JStr ''3D''}"
    by (auto simp: js_or_def)
  from n a e t1 t2 t3 show ?thesis unfolding d_def by blast
qed

text \<open>
  Claim C3 at a concrete document that lacks six containers.
\<close>

theorem normalize_total_containers_witness:
  "normalize (JObj partial_doc) =
     Inr \<lparr> points = JArr [JObj [(''id'', JStr ''A'')]], edges = JArr [], faces = JArr [],
           angles = JArr [], circles = JArr [], steps = JArr [], reasoning = JArr [],
           type = JStr ''3D'', message = JStr ''hello'', mathSolution = JUndefined \<rparr>"
proof -
  have h: "\<forall>k \<in> set container_keys.
      js_get (JObj partial_doc) k = JUndefined \<or> is_array (js_get (JObj partial_doc) k)"
    by (simp add: container_keys_def partial_doc_def is_array_def)
  from normalize_total_containers [OF h] show ?thesis
    by (simp add: normalize_def partial_doc_def js_or_def)
qed

text \<open>
  Claim C3 as stated fails: an unrecognised \<open>type\<close> is not replaced by 2D.
\<close>

theorem normalize_unrecognized_type_counterexample:
  "normalize (JObj [(''type'', JStr ''4D'')]) =
     Inr \<lparr> points = JArr [], edges = JArr [], faces = JArr [], angles = JArr [],
           circles = JArr [], steps = JArr [], reasoning = JArr [], type = JStr ''4D'',
           message = JUndefined, mathSolution = JUndefined \<rparr>"
  by (simp add: normalize_def js_or_def)

section \<open>Sending a message\<close>

text \<open>
  Claim C4. When the active project has a non-empty id and \<open>generateGeometry\<close>
  fails, the call leaves the scene of that project as it was and extends its
  transcript by the user's message and one failure message. A second call that
  succeeds then stores its scene and extends the transcript by the second user
  message and the reply, after the failure message of the first call.
\<close>

theorem failed_generate_keeps_scene:
  assumes "activeProject s = Some p" and "id_proj p \<noteq> []"
    and "generateGeometry key1 parse1 resp1 = Inl err"
    and "generateGeometry key2 parse2 resp2 = Inr data"
  shows "let s1 = handleSendMessage txt1 t0 c1 (generateGeometry key1 parse1 resp1) c2 s;
             s2 = handleSendMessage txt2 t0 c3 (generateGeometry key2 parse2 resp2) c4 s1
         in map_option geometryData (activeProject s1) = Some (geometryData p) \<and>
            map_option messages (activeProject s1) =
              Some (messages p @ [userMsg txt1 c1, failMsg c2]) \<and>
            map_option geometryData (activeProject s2) = Some (Some data) \<and>
            map_option messages (activeProject s2) =
              Some (messages p @ [userMsg txt1 c1, failMsg c2, userMsg txt2 c3, aiMsg data c4])"
proof -
  define p1 where "p1 = p\<lparr> messages := messages p @ [userMsg txt1 c1, failMsg c2],
                 lastModified := at_mod c2 \<rparr>"
  define s1 where "s1 = handleSendMessage txt1 t0 c1 (Inl err) c2 s"
  have a1: "activeProject s1 = Some p1"
    using activeProject_handleSendMessage [OF assms(1,2), of txt1 t0 c1 "Inl err" c2]
    by (simp add: s1_def p1_def)
  have "id_proj p1 \<noteq> []" using assms(2) by (simp add: p1_def)
  from activeProject_handleSendMessage [OF a1 this, of txt2 t0 c3 "Inr data" c4]
  have a2: "activeProject (handleSendMessage txt2 t0 c3 (Inr data) c4 s1) =
      Some (p1\<lparr> messages := messages p1 @ [userMsg txt2 c3, aiMsg data c4],
                 geometryData := Some data, currentStepIndex := 0, lastModified := at_mod c4 \<rparr>)"
    by simp
  show ?thesis
    using a1 a2 by (simp add: assms(3,4) s1_def [symmetric] Let_def p1_def)
qed

text \<open>
  Claim C4 at a concrete run: a missing API key, a throwing service call and a text
  that is not JSON are failures; a first call without API key and a second,
  successful call on \<open>three_step_App\<close>.
\<close>

theorem failed_generate_keeps_scene_witness:
  "map_option id_proj (activeProject three_step_App) = Some ''1'' \<and>
   generateGeometry None parse_demo (ResponseText (Some ''{}'')) = Inl MissingApiKey \<and>
   generateGeometry (Some ''k'') parse_demo CallThrows = Inl ServiceError \<and>
   generateGeometry (Some ''k'') parse_demo (ResponseText (Some ''<html>'')) = Inl SyntaxError \<and>
   map_option (map text_msg \<circ> messages) (activeProject
     (handleSendMessage ''b'' 0 (stamps 6) (generateGeometry (Some ''k'') parse_demo (ResponseText (Some ''{}''))) (stamps 7)
       (handleSendMessage ''a'' 0 (stamps 4) (generateGeometry None parse_demo (ResponseText (Some ''{}''))) (stamps 5)
          three_step_App)))
     = Some [JStr welcome_text, JStr ''draw'', JStr ''Xong!'', JStr ''a'', JStr failure_text,
             JStr ''b'', JStr ''Xong!''] \<and>
   map_option geometryData (activeProject
       (handleSendMessage ''a'' 0 (stamps 4) (generateGeometry None parse_demo (ResponseText (Some ''{}''))) (stamps 5)
          three_step_App))
     = map_option geometryData (activeProject three_step_App)"
proof -
  obtain p where h1: "activeProject three_step_App = Some p" and h2: "id_proj p \<noteq> []"
    and mp: "map text_msg (messages p) = [JStr welcome_text, JStr ''draw'', JStr ''Xong!'']"
    and ip: "id_proj p = ''1''"
    by (simp add: demo_defs eval_defs)
  have f1: "generateGeometry None parse_demo (ResponseText (Some ''{}'')) = Inl MissingApiKey"
    by (simp add: generateGeometry_def)
  have f2: "generateGeometry (Some ''k'') parse_demo CallThrows = Inl ServiceError"
    by (simp add: generateGeometry_def)
  have f3: "generateGeometry (Some ''k'') parse_demo (ResponseText (Some ''<html>'')) = Inl SyntaxError"
    by (simp add: generateGeometry_def parse_demo_def)
  obtain data where ok: "generateGeometry (Some ''k'') parse_demo (ResponseText (Some ''{}'')) = Inr data"
    and md: "message data = JUndefined"
    by (simp add: generateGeometry_def parse_demo_def normalize_def)
  from failed_generate_keeps_scene [OF h1 h2 f1 ok, of "''a''" 0 "stamps 4" "stamps 5" "''b''" "stamps 6" "stamps 7"]
  show ?thesis
    using h1 mp ip f1 f2 f3
    by (auto simp: Let_def userMsg_def failMsg_def aiMsg_def js_or_def md)
qed

text \<open>
  Claim C6. When a call settles with a scene, every project with the captured id
  receives that scene and has its \<open>currentStepIndex\<close> set to 0 by the same
  update, whatever the cursor was.
\<close>

theorem success_resets_cursor:
  assumes "i < length (projects s)" and "Some (id_proj (projects s ! i)) = target pend"
  shows "geometryData (projects (handleSendMessage_settle pend (Inr data) c s) ! i) = Some data \<and>
         currentStepIndex (projects (handleSendMessage_settle pend (Inr data) c s) ! i) = 0"
  using assms by (simp add: settle_nth)

text \<open>
  Claim C6 at a concrete store whose cursor was 99.
\<close>

theorem success_resets_cursor_witness:
  "(0::nat) < length (projects (setCurrentStepIndex 99 4 three_step_App)) \<and>
   Some (id_proj (projects (setCurrentStepIndex 99 4 three_step_App) ! 0)) = target switch_pend \<and>
   map currentStepIndex (projects (setCurrentStepIndex 99 4 three_step_App)) = [99] \<and>
   map currentStepIndex (projects (handleSendMessage_settle switch_pend
      (normalize (JObj partial_doc)) (stamps 6) (setCurrentStepIndex 99 4 three_step_App))) = [0]"
proof -
  have h1: "(0::nat) < length (projects (setCurrentStepIndex 99 4 three_step_App))"
    by (simp add: demo_defs eval_defs)
  have h2: "Some (id_proj (projects (setCurrentStepIndex 99 4 three_step_App) ! 0)) = target switch_pend"
    by (simp add: demo_defs eval_defs)
  obtain data where n: "normalize (JObj partial_doc) = Inr data"
    by (simp add: normalize_def)
  from success_resets_cursor [OF h1 h2, of data "stamps 6"] h1 h2 show ?thesis
    unfolding n [symmetric] by (simp add: demo_defs eval_defs)
qed

text \<open>
  Claim C7. The id captured when the call was issued is the \<open>currentProjectId\<close>
  of that moment. When the call settles, in whatever state \<open>s\<close> the store is by
  then and whichever project is active in it, the projects with the captured id
  receive the reply or the failure message (and the scene on success), every other
  project is unchanged, and the active id of \<open>s\<close> stays.
\<close>

theorem settle_applies_to_captured_project:
  assumes "handleSendMessage_begin txt t0 c1 s0 = (Some pend, s1)"
    and "i < length (projects s)"
  shows "target pend = currentProjectId s0 \<and>
    currentProjectId (handleSendMessage_settle pend result c2 s) = currentProjectId s \<and>
    length (projects (handleSendMessage_settle pend result c2 s)) = length (projects s) \<and>
    (Some (id_proj (projects s ! i)) \<noteq> currentProjectId s0 \<longrightarrow>
       projects (handleSendMessage_settle pend result c2 s) ! i = projects s ! i) \<and>
    (Some (id_proj (projects s ! i)) = currentProjectId s0 \<longrightarrow>
       messages (projects (handleSendMessage_settle pend result c2 s) ! i) =
         updatedMessages pend @ [case result of Inr data \<Rightarrow> aiMsg data c2 | Inl err \<Rightarrow> failMsg c2] \<and>
       geometryData (projects (handleSendMessage_settle pend result c2 s) ! i) =
         (case result of Inr data \<Rightarrow> Some data | Inl err \<Rightarrow> geometryData (projects s ! i)))"
proof -
  from assms(1) have t: "target pend = currentProjectId s0"
    by (simp add: begin_Some)
  show ?thesis
    using assms(2) by (simp add: t [symmetric] settle_nth split: sum.split)
qed

text \<open>
  Claim C7 at a concrete run: the call is issued with project 1 active, the user
  switches to project 2, the call fails; project 2 is untouched and project 1 has
  the failure message.
\<close>

theorem settle_applies_to_captured_project_witness:
  "handleSendMessage_begin ''q'' 0 (stamps 5) (selectProject ''1'' two_App)
     = (Some switch_pend, snd (handleSendMessage_begin ''q'' 0 (stamps 5) (selectProject ''1'' two_App))) \<and>
   (1::nat) < length (projects switch_App) \<and>
   currentProjectId (selectProject ''1'' two_App) = Some ''1'' \<and>
   currentProjectId switch_App = Some ''2'' \<and>
   currentProjectId (handleSendMessage_settle switch_pend (Inl ServiceError) (stamps 6) switch_App)
     = Some ''2'' \<and>
   map id_proj (projects switch_App) = [''2'', ''1''] \<and>
   projects (handleSendMessage_settle switch_pend (Inl ServiceError) (stamps 6) switch_App) ! 0
     = projects switch_App ! 0 \<and>
   messages (projects (handleSendMessage_settle switch_pend (Inl ServiceError) (stamps 6) switch_App) ! 1)
     = updatedMessages switch_pend @ [failMsg (stamps 6)]"
proof -
  have h1: "handleSendMessage_begin ''q'' 0 (stamps 5) (selectProject ''1'' two_App)
     = (Some switch_pend, snd (handleSendMessage_begin ''q'' 0 (stamps 5) (selectProject ''1'' two_App)))"
    by (simp add: demo_defs eval_defs)
  have h2: "(1::nat) < length (projects switch_App)"
    by (simp add: demo_defs eval_defs)
  have ids: "map id_proj (projects switch_App) = [''2'', ''1'']"
    "currentProjectId (selectProject ''1'' two_App) = Some ''1''"
    "currentProjectId switch_App = Some ''2''"
    by (simp_all add: demo_defs eval_defs)
  have h0: "(0::nat) < length (projects switch_App)"
    by (simp add: demo_defs eval_defs)
  have p0: "id_proj (projects switch_App ! 0) = ''2''"
    and p1: "id_proj (projects switch_App ! Suc 0) = ''1''"
    by (simp_all add: demo_defs eval_defs)
  from settle_applies_to_captured_project [OF h1 h2, of "Inl ServiceError" "stamps 6"]
    settle_applies_to_captured_project [OF h1 h0, of "Inl ServiceError" "stamps 6"]
    h0 h1 h2 ids
  show ?thesis
    by (simp add: p0 p1)
qed

text \<open>
  Claim C10. When the scene of a successful call has no message or the empty
  string as message, the text of the reply is \<open>Xong!\<close>; when its message is any
  other string, the text of the reply is that message.
\<close>

theorem reply_text_default:
  assumes "i < length (projects s)" and "Some (id_proj (projects s ! i)) = target pend"
    and "message data = JUndefined \<or> (\<exists>t. message data = JStr t)"
  shows "text_msg (last (messages (projects (handleSendMessage_settle pend (Inr data) c s) ! i))) =
           (if message data = JUndefined \<or> message data = JStr [] then JStr ''Xong!''
            else message data)"
  using assms by (auto simp: settle_nth aiMsg_def js_or_def)

text \<open>
  Claim C10 at two concrete documents, one with a message and one without.
\<close>

theorem reply_text_default_witness:
  "(0::nat) < length (projects three_step_App) \<and>
   Some (id_proj (projects three_step_App ! 0)) = target switch_pend \<and>
   text_msg (last (messages (projects (handleSendMessage_settle switch_pend
      (normalize (JObj partial_doc)) (stamps 6) three_step_App) ! 0))) = JStr ''hello'' \<and>
   text_msg (last (messages (projects (handleSendMessage_settle switch_pend
      (normalize (JObj [])) (stamps 6) three_step_App) ! 0))) = JStr ''Xong!''"
proof -
  have h1: "(0::nat) < length (projects three_step_App)"
    by (simp add: demo_defs eval_defs)
  have h2: "Some (id_proj (projects three_step_App ! 0)) = target switch_pend"
    by (simp add: demo_defs eval_defs)
  obtain d1 where n1: "normalize (JObj partial_doc) = Inr d1" and m1: "message d1 = JStr ''hello''"
    by (simp add: normalize_def partial_doc_def)
  obtain d2 where n2: "normalize (JObj []) = Inr d2" and m2: "message d2 = JUndefined"
    by (simp add: normalize_def)
  have a1: "message d1 = JUndefined \<or> (\<exists>t. message d1 = JStr t)" using m1 by simp
  have a2: "message d2 = JUndefined \<or> (\<exists>t. message d2 = JStr t)" using m2 by simp
  from reply_text_default [OF h1 h2 a1, of "stamps 6"] reply_text_default [OF h1 h2 a2, of "stamps 6"]
    h1 h2 show ?thesis
    by (simp add: n1 n2 m1 m2)
qed

end
